theory Spec2Isabelle
  imports Complex_Main "HOL-Library.Sublist"
begin

section \<open>The order records and the filter state of \<open>components/data.py\<close>\<close>

text \<open>
  The dashboard keeps one table of orders (a pandas DataFrame) and a filtered copy of it.
  A DataFrame is modelled as the list of its rows, in file order. A row carries the columns
  that \<open>Data.apply_filters\<close> and \<open>Data.compute_kpis\<close> read. The column \<open>order_date\<close>
  is a timestamp at midnight after \<open>load_data\<close>, modelled as a day number.
\<close>

type_synonym date = int

text \<open>
  A cell of the two money columns, and every figure computed from them, is a numpy scalar:
  a float64, or an int64 when the column holds integers only. Every finite value of either
  type is a rational number; a float64 can also be an infinity or not a number.
\<close>

datatype number = Finite rat | PosInf | NegInf | NaN

record order_record =
  order_id :: string
  order_date :: date
  sales_per_order :: number
  profit_per_order :: number
  customer_region :: string
  category_name :: string
  customer_segment :: string
  delivery_status :: string
  shipping_type :: string

type_synonym frame = "order_record list"

text \<open>
  The five categorical columns that the loop of \<open>apply_filters\<close> walks through, in the
  order of the source, and the cell of a row under each of them (\<open>df[column]\<close>).
\<close>

datatype column =
  CustomerRegion | CategoryName | CustomerSegment | DeliveryStatus | ShippingType

fun cell :: "column \<Rightarrow> order_record \<Rightarrow> string" where
  "cell CustomerRegion r = customer_region r"
| "cell CategoryName r = category_name r"
| "cell CustomerSegment r = customer_segment r"
| "cell DeliveryStatus r = delivery_status r"
| "cell ShippingType r = shipping_type r"

definition categorical_columns :: "column list" where
  "categorical_columns =
     [CustomerRegion, CategoryName, CustomerSegment, DeliveryStatus, ShippingType]"

text \<open>
  \<open>self.filters\<close> is a dict with the six keys set in \<open>__init__\<close>. The entry
  \<open>date_range\<close> is \<open>None\<close> or the tuple of dates that the date picker returns (which has
  zero, one or two elements); a categorical entry is \<open>None\<close> or the list of selected
  values. \<open>dict.get\<close> returns \<open>None\<close> for a missing key, so a missing key and a key
  bound to \<open>None\<close> are the same value here.
\<close>

record filter_set =
  date_range :: "date list option"
  categorical :: "column \<Rightarrow> string list option"

text \<open>
  The keyword arguments of \<open>set_filters\<close>: for each key, \<open>None\<close> when the call does
  not name it, \<open>Some v\<close> when the call passes the value \<open>v\<close> (itself possibly
  \<open>None\<close>).
\<close>

record kwargs =
  kw_date_range :: "date list option option"
  kw_categorical :: "column \<Rightarrow> string list option option"

record data =
  df :: frame
  filtered_df :: frame
  filters :: filter_set

datatype error = IndexError

section \<open>Construction\<close>

text \<open>
  \<open>Data.__init__\<close>, given the frame that \<open>load_data\<close> returned: the filtered frame
  starts as a copy of the full one and every filter entry is \<open>None\<close>. The last statement
  of the constructor converts \<open>order_date\<close> again, which leaves a column of timestamps
  as it is.
\<close>

definition no_filters :: filter_set where
  "no_filters = \<lparr>date_range = None, categorical = (\<lambda>c. None)\<rparr>"

definition data_init :: "frame \<Rightarrow> data" where
  "data_init loaded = \<lparr>df = loaded, filtered_df = loaded, filters = no_filters\<rparr>"

section \<open>Filtering\<close>

text \<open>
  The date step. \<open>if date_range:\<close> is false for \<open>None\<close> and for the empty tuple.
  Otherwise \<open>date_range[0]\<close> and \<open>date_range[1]\<close> are read: a tuple of one date makes
  the second read raise \<open>IndexError\<close>, and elements after the second are not read.
  \<open>pd.to_datetime\<close> of a date is that date at midnight.
\<close>

fun filter_date_range :: "date list option \<Rightarrow> frame \<Rightarrow> error + frame" where
  "filter_date_range None rows = Inr rows"
| "filter_date_range (Some []) rows = Inr rows"
| "filter_date_range (Some [start_date]) rows = Inl IndexError"
| "filter_date_range (Some (start_date # end_date # rest)) rows =
     Inr (filter (\<lambda>r. order_date r \<ge> start_date \<and> order_date r \<le> end_date) rows)"

text \<open>
  One round of the loop over the categorical columns: when \<open>values\<close> is neither
  \<open>None\<close> nor empty and \<open>len(values) > 0\<close>, the frame becomes
  \<open>df[df[column].isin(values)]\<close>.
\<close>

definition filter_column :: "filter_set \<Rightarrow> column \<Rightarrow> frame \<Rightarrow> frame" where
  "filter_column fs col rows =
     (case categorical fs col of
        None \<Rightarrow> rows
      | Some vals \<Rightarrow>
          if vals \<noteq> [] \<and> length vals > 0
          then filter (\<lambda>r. cell col r \<in> set vals) rows
          else rows)"

fun filter_columns :: "filter_set \<Rightarrow> column list \<Rightarrow> frame \<Rightarrow> frame" where
  "filter_columns fs [] rows = rows"
| "filter_columns fs (col # cols) rows = filter_columns fs cols (filter_column fs col rows)"

text \<open>
  \<open>Data.apply_filters\<close>: starts from a copy of \<open>self.df\<close>; the assignment to
  \<open>self.filtered_df\<close> is its last statement, so an exception leaves the object as it was.
\<close>

definition apply_filters :: "data \<Rightarrow> error + data" where
  "apply_filters st =
     (case filter_date_range (date_range (filters st)) (df st) of
        Inl e \<Rightarrow> Inl e
      | Inr rows \<Rightarrow>
          Inr (st\<lparr>filtered_df := filter_columns (filters st) categorical_columns rows\<rparr>))"

text \<open>
  \<open>dict.update(kwargs)\<close>: the named keys take the given values, the others keep theirs.
\<close>

definition update_filters :: "filter_set \<Rightarrow> kwargs \<Rightarrow> filter_set" where
  "update_filters fs kw =
     \<lparr>date_range = (case kw_date_range kw of None \<Rightarrow> date_range fs | Some v \<Rightarrow> v),
      categorical = (\<lambda>c. case kw_categorical kw c of None \<Rightarrow> categorical fs c | Some v \<Rightarrow> v)\<rparr>"

text \<open>
  \<open>Data.set_filters\<close>: the dict is updated first, then \<open>apply_filters\<close> runs. When that
  raises, the exception leaves the object with the updated dict and the old filtered frame;
  the result is the object after the call together with the exception, if any.
\<close>

definition set_filters :: "kwargs \<Rightarrow> data \<Rightarrow> data \<times> error option" where
  "set_filters kw st =
     (let st1 = st\<lparr>filters := update_filters (filters st) kw\<rparr> in
      case apply_filters st1 of
        Inl e \<Rightarrow> (st1, Some e)
      | Inr st2 \<Rightarrow> (st2, None))"

section \<open>Key figures\<close>

text \<open>
  The arithmetic of pandas and numpy that \<open>compute_kpis\<close> calls is not code of the
  dashboard, and its results are not those of exact arithmetic: a float64 sum rounds at
  every step in an order that pandas chooses, an int64 sum wraps around, a quotient or a
  product rounds or overflows to an infinity. The three operations are therefore parameters
  of the model: \<open>Series.sum()\<close>, the division \<open>a / b\<close> and the product \<open>a * b\<close> of
  scalars. Every statement below holds for whatever these operations compute.
\<close>

record arithmetic =
  np_sum :: "number list \<Rightarrow> number"
  np_divide :: "number \<Rightarrow> number \<Rightarrow> number"
  np_multiply :: "number \<Rightarrow> number \<Rightarrow> number"

text \<open>
  Comparisons are exact in numpy. \<open>x > 0\<close> is false for not-a-number. A Python
  \<open>int\<close> used as an operand, such as \<open>total_orders\<close>, \<open>100\<close> or the \<open>0\<close> of an
  \<open>else\<close> branch, is its own value.
\<close>

fun greater_than_zero :: "number \<Rightarrow> bool" where
  "greater_than_zero (Finite q) = (q > 0)"
| "greater_than_zero PosInf = True"
| "greater_than_zero NegInf = False"
| "greater_than_zero NaN = False"

fun less_than_zero :: "number \<Rightarrow> bool" where
  "less_than_zero (Finite q) = (q < 0)"
| "less_than_zero PosInf = False"
| "less_than_zero NegInf = True"
| "less_than_zero NaN = False"

definition py_int :: "nat \<Rightarrow> number" where
  "py_int n = Finite (of_nat n)"

record kpis =
  total_revenue :: number
  total_profit :: number
  total_orders :: nat
  profit_margin :: number
  avg_order_value :: number
  on_time_rate :: number
  late_deliveries :: nat

text \<open>\<open>(df['delivery_status'] == status).sum()\<close>: the number of rows with that status.\<close>

definition count_status :: "string \<Rightarrow> frame \<Rightarrow> nat" where
  "count_status status rows = length (filter (\<lambda>r. delivery_status r = status) rows)"

text \<open>
  The body of \<open>Data.compute_kpis\<close> on a frame, statement by statement. Each of the three
  quotients stands under the guard of the source; numpy division does not raise.
\<close>

definition kpis_of_frame :: "arithmetic \<Rightarrow> frame \<Rightarrow> kpis" where
  "kpis_of_frame ops rows =
     (let revenue = np_sum ops (map sales_per_order rows);
          profit = np_sum ops (map profit_per_order rows);
          orders = length rows;
          margin =
            (if greater_than_zero revenue
             then np_multiply ops (np_divide ops profit revenue) (py_int 100)
             else py_int 0);
          aov = (if orders > 0 then np_divide ops revenue (py_int orders) else py_int 0);
          on_time =
            (if orders > 0
             then np_multiply ops
                    (np_divide ops (py_int (count_status ''Shipping on time'' rows))
                       (py_int orders))
                    (py_int 100)
             else py_int 0);
          late = count_status ''Late delivery'' rows
      in \<lparr>total_revenue = revenue, total_profit = profit, total_orders = orders,
          profit_margin = margin, avg_order_value = aov, on_time_rate = on_time,
          late_deliveries = late\<rparr>)"

definition compute_kpis :: "arithmetic \<Rightarrow> data \<Rightarrow> kpis" where
  "compute_kpis ops st = kpis_of_frame ops (filtered_df st)"

section \<open>The specification's reading of the filter and of the key figures\<close>

text \<open>
  A categorical filter entry restricts a value when it is a non-empty selection; an unset
  entry and an empty selection restrict nothing.
\<close>

fun selected :: "string list option \<Rightarrow> string \<Rightarrow> bool" where
  "selected None v = True"
| "selected (Some []) v = True"
| "selected (Some (x # xs)) v = (v \<in> set (x # xs))"

text \<open>
  A date range restricts a date, both ends included, when it is set; the interval is given
  by the first two dates of the entry.
\<close>

fun in_date_range :: "date list option \<Rightarrow> date \<Rightarrow> bool" where
  "in_date_range (Some (start_date # end_date # rest)) d = (start_date \<le> d \<and> d \<le> end_date)"
| "in_date_range other d = True"

text \<open>The conjunction of the six filters on one record.\<close>

definition satisfies :: "filter_set \<Rightarrow> order_record \<Rightarrow> bool" where
  "satisfies fs r =
     (in_date_range (date_range fs) (order_date r)
      \<and> selected (categorical fs CustomerRegion) (customer_region r)
      \<and> selected (categorical fs CategoryName) (category_name r)
      \<and> selected (categorical fs CustomerSegment) (customer_segment r)
      \<and> selected (categorical fs DeliveryStatus) (delivery_status r)
      \<and> selected (categorical fs ShippingType) (shipping_type r))"

text \<open>
  A date entry that \<open>apply_filters\<close> can read: unset, empty, or at least a start and an
  end. The date interval of the specification's Filter Set is the two-element case.
\<close>

fun readable_date_range :: "date list option \<Rightarrow> bool" where
  "readable_date_range (Some [d]) = False"
| "readable_date_range other = True"

text \<open>
  The key figures as the specification words them, over the same arithmetic: the margin is
  \<open>100 * profit / revenue\<close> and is 0 when the revenue is 0; the average order value is
  \<open>revenue / count\<close> and the on-time rate is \<open>100 * on_time / count\<close>, both 0 when
  the count is 0.
\<close>

definition kpi_formulas :: "arithmetic \<Rightarrow> frame \<Rightarrow> kpis" where
  "kpi_formulas ops rows =
     (let revenue = np_sum ops (map sales_per_order rows);
          profit = np_sum ops (map profit_per_order rows);
          orders = length rows
      in \<lparr>total_revenue = revenue, total_profit = profit, total_orders = orders,
          profit_margin =
            (if revenue = Finite 0 then Finite 0
             else np_divide ops (np_multiply ops (Finite 100) profit) revenue),
          avg_order_value =
            (if orders = 0 then Finite 0 else np_divide ops revenue (py_int orders)),
          on_time_rate =
            (if orders = 0 then Finite 0
             else np_divide ops
                    (np_multiply ops (Finite 100)
                       (py_int (count_status ''Shipping on time'' rows)))
                    (py_int orders)),
          late_deliveries = count_status ''Late delivery'' rows\<rparr>)"

section \<open>Sample data\<close>

text \<open>
  Three orders in the shape of the scenario of the specification (revenues 100, 200 and 0,
  profits 10, -5 and 0, one late delivery), an order with a negative sales amount, and two
  more orders that make every sum, quotient and product of the key figures a number that
  float64 holds exactly.
\<close>

definition order_a :: order_record where
  "order_a = \<lparr>order_id = ''A-1001'', order_date = 18995, sales_per_order = Finite 100,
     profit_per_order = Finite 10, customer_region = ''West'',
     category_name = ''Office Supplies'', customer_segment = ''Consumer'',
     delivery_status = ''Late delivery'', shipping_type = ''Standard Class''\<rparr>"

definition order_b :: order_record where
  "order_b = \<lparr>order_id = ''B-1002'', order_date = 19010, sales_per_order = Finite 200,
     profit_per_order = Finite (- 5), customer_region = ''East'',
     category_name = ''Technology'', customer_segment = ''Corporate'',
     delivery_status = ''Shipping on time'', shipping_type = ''First Class''\<rparr>"

definition order_c :: order_record where
  "order_c = \<lparr>order_id = ''C-1003'', order_date = 19100, sales_per_order = Finite 0,
     profit_per_order = Finite 0, customer_region = ''South'', category_name = ''Furniture'',
     customer_segment = ''Consumer'', delivery_status = ''Shipping canceled'',
     shipping_type = ''Second Class''\<rparr>"

definition order_d :: order_record where
  "order_d = \<lparr>order_id = ''D-1005'', order_date = 19030, sales_per_order = Finite 28,
     profit_per_order = Finite 6, customer_region = ''East'', category_name = ''Furniture'',
     customer_segment = ''Home Office'', delivery_status = ''Shipping on time'',
     shipping_type = ''Second Class''\<rparr>"

definition order_e :: order_record where
  "order_e = \<lparr>order_id = ''E-1006'', order_date = 19040, sales_per_order = Finite 128,
     profit_per_order = Finite 16, customer_region = ''Central'',
     category_name = ''Technology'', customer_segment = ''Corporate'',
     delivery_status = ''Shipping on time'', shipping_type = ''Same Day''\<rparr>"

definition order_refund :: order_record where
  "order_refund = \<lparr>order_id = ''R-1004'', order_date = 19020,
     sales_per_order = Finite (- 100), profit_per_order = Finite 10,
     customer_region = ''West'', category_name = ''Technology'',
     customer_segment = ''Consumer'', delivery_status = ''Shipping on time'',
     shipping_type = ''Standard Class''\<rparr>"

definition sample_frame :: frame where
  "sample_frame = [order_a, order_b, order_c]"

definition ledger_frame :: frame where
  "ledger_frame = [order_a, order_d, order_c, order_e]"

definition sample_filters :: filter_set where
  "sample_filters =
     \<lparr>date_range = Some [18990, 19050],
      categorical = (\<lambda>c. None)(CustomerRegion := Some [''West'', ''East''],
                                  CustomerSegment := Some [])\<rparr>"

definition sample_data :: data where
  "sample_data = \<lparr>df = sample_frame, filtered_df = sample_frame, filters = sample_filters\<rparr>"

definition sample_kwargs :: kwargs where
  "sample_kwargs =
     \<lparr>kw_date_range = None,
      kw_categorical = (\<lambda>c. None)(DeliveryStatus := Some (Some [''Late delivery'']))\<rparr>"

text \<open>
  An arithmetic for the sample data: the exact result on finite operands, which is what
  float64 and int64 compute whenever the operands and the result are numbers they hold
  exactly (as the integers and the binary fractions of the samples are), and not-a-number
  on any other operand.
\<close>

fun exact_add :: "number \<Rightarrow> number \<Rightarrow> number" where
  "exact_add (Finite a) (Finite b) = Finite (a + b)"
| "exact_add x y = NaN"

fun exact_divide :: "number \<Rightarrow> number \<Rightarrow> number" where
  "exact_divide (Finite a) (Finite b) = (if b = 0 then NaN else Finite (a / b))"
| "exact_divide x y = NaN"

fun exact_multiply :: "number \<Rightarrow> number \<Rightarrow> number" where
  "exact_multiply (Finite a) (Finite b) = Finite (a * b)"
| "exact_multiply x y = NaN"

definition exact_arithmetic :: arithmetic where
  "exact_arithmetic =
     \<lparr>np_sum = (\<lambda>xs. foldl exact_add (Finite 0) xs),
      np_divide = exact_divide, np_multiply = exact_multiply\<rparr>"

section \<open>What the filter steps compute\<close>

lemma filter_column_selected:
  "filter_column fs col rows = filter (\<lambda>r. selected (categorical fs col) (cell col r)) rows"
proof (cases "categorical fs col")
  case None
  then show ?thesis by (simp add: filter_column_def)
next
  case (Some vals)
  then show ?thesis by (cases vals) (simp_all add: filter_column_def)
qed

lemma filter_columns_selected:
  "filter_columns fs cols rows =
     filter (\<lambda>r. list_all (\<lambda>col. selected (categorical fs col) (cell col r)) cols) rows"
proof (induction cols arbitrary: rows)
  case Nil
  show ?case by simp
next
  case (Cons col cols)
  show ?case
    by (simp add: Cons.IH filter_column_selected conj_commute)
qed

lemma filter_columns_cong:
  "(\<And>col. col \<in> set cols \<Longrightarrow> filter_column fs col = filter_column fs' col) \<Longrightarrow>
     filter_columns fs cols rows = filter_columns fs' cols rows"
  by (induction cols arbitrary: rows) simp_all

lemma filter_column_empty_none:
  "filter_column (fs\<lparr>categorical := (categorical fs)(c := Some [])\<rparr>) col
   = filter_column (fs\<lparr>categorical := (categorical fs)(c := None)\<rparr>) col"
  by (rule ext) (simp add: filter_column_def)

lemma filter_date_range_readable:
  "readable_date_range ds \<Longrightarrow>
     filter_date_range ds rows = Inr (filter (\<lambda>r. in_date_range ds (order_date r)) rows)"
  by (induction ds rows rule: filter_date_range.induct) simp_all

lemma filter_date_range_unreadable:
  "\<not> readable_date_range ds \<Longrightarrow> filter_date_range ds rows = Inl IndexError"
  by (induction ds rows rule: filter_date_range.induct) simp_all

lemma filter_columns_satisfies:
  "filter_columns fs categorical_columns
     (filter (\<lambda>r. in_date_range (date_range fs) (order_date r)) rows)
   = filter (satisfies fs) rows"
proof -
  have "\<And>r. (in_date_range (date_range fs) (order_date r) \<and>
             list_all (\<lambda>col. selected (categorical fs col) (cell col r)) categorical_columns)
           = satisfies fs r"
    by (simp add: categorical_columns_def satisfies_def)
  then show ?thesis
    by (simp add: filter_columns_selected conj_commute)
qed

lemma apply_filters_readable:
  "readable_date_range (date_range (filters st)) \<Longrightarrow>
     apply_filters st = Inr (st\<lparr>filtered_df := filter (satisfies (filters st)) (df st)\<rparr>)"
  by (simp add: apply_filters_def filter_date_range_readable filter_columns_satisfies)

lemma apply_filters_unreadable:
  "\<not> readable_date_range (date_range (filters st)) \<Longrightarrow> apply_filters st = Inl IndexError"
  by (simp add: apply_filters_def filter_date_range_unreadable)

lemma apply_filters_Inr:
  assumes "apply_filters st = Inr st'"
  shows "readable_date_range (date_range (filters st))"
    and "st' = st\<lparr>filtered_df := filter (satisfies (filters st)) (df st)\<rparr>"
proof -
  show r: "readable_date_range (date_range (filters st))"
    using assms apply_filters_unreadable [of st]
    by (cases "readable_date_range (date_range (filters st))") simp_all
  show "st' = st\<lparr>filtered_df := filter (satisfies (filters st)) (df st)\<rparr>"
    using assms apply_filters_readable [OF r] by simp
qed

lemma satisfies_no_filters: "satisfies no_filters r"
  by (simp add: satisfies_def no_filters_def)

lemma apply_filters_no_filters:
  "filters st = no_filters \<Longrightarrow> apply_filters st = Inr (st\<lparr>filtered_df := df st\<rparr>)"
  using apply_filters_readable [of st]
  by (simp add: satisfies_no_filters) (simp add: no_filters_def)

lemma sample_readable: "readable_date_range (date_range (filters sample_data))"
  by (simp add: sample_data_def sample_filters_def)

lemma sample_filtered:
  "filter (satisfies (filters sample_data)) (df sample_data) = [order_a, order_b]"
  by (simp add: sample_data_def sample_filters_def sample_frame_def satisfies_def
      order_a_def order_b_def order_c_def)

lemma sample_apply_filters:
  "apply_filters sample_data = Inr (sample_data\<lparr>filtered_df := [order_a, order_b]\<rparr>)"
  using apply_filters_readable [OF sample_readable] by (simp add: sample_filtered)

section \<open>Claims about filtering\<close>

text \<open>
  Claim C1. For a stored Filter Set whose date entry is unset or a date interval (more
  generally, any date entry that is not a tuple of a single date), \<open>apply_filters\<close> returns
  normally and replaces the filtered frame by exactly the records of the full frame that
  satisfy the conjunction of the active filters: the order date lies between the start and
  the end of the date range, both included, when a range is set, and for each of the five
  categorical columns the record's value is among the selected values when the selection is
  non-empty. An unset entry restricts nothing. The full frame and the filters are unchanged.
\<close>

theorem apply_filters_conjunction:
  assumes "readable_date_range (date_range (filters st))"
  shows "apply_filters st = Inr (st\<lparr>filtered_df := filter (satisfies (filters st)) (df st)\<rparr>)"
  using assms
  by (simp add: apply_filters_def filter_date_range_readable filter_columns_satisfies)

theorem apply_filters_conjunction_witness:
  "readable_date_range (date_range (filters sample_data))
   \<and> apply_filters sample_data = Inr (sample_data\<lparr>filtered_df := [order_a, order_b]\<rparr>)"
proof -
  have h: "readable_date_range (date_range (filters sample_data))"
    by (rule sample_readable)
  show ?thesis
    using h apply_filters_conjunction [OF h] by (simp add: sample_filtered)
qed

text \<open>
  Claim C3. Whenever \<open>apply_filters\<close> produces a filtered frame, that frame is a
  subsequence of the full frame (rows are dropped, never added, reordered or repeated), so
  every record of it is a record of the full frame; the full frame itself is unchanged.
\<close>

theorem apply_filters_subset:
  assumes "apply_filters st = Inr st'"
  shows "subseq (filtered_df st') (df st) \<and> set (filtered_df st') \<subseteq> set (df st)
         \<and> df st' = df st"
  using apply_filters_Inr(2) [OF assms] by simp

theorem apply_filters_subset_witness:
  "apply_filters sample_data = Inr (sample_data\<lparr>filtered_df := [order_a, order_b]\<rparr>)
   \<and> subseq [order_a, order_b] (df sample_data)
   \<and> set [order_a, order_b] \<subseteq> set (df sample_data)"
proof -
  have h: "apply_filters sample_data = Inr (sample_data\<lparr>filtered_df := [order_a, order_b]\<rparr>)"
    by (rule sample_apply_filters)
  show ?thesis
    using h apply_filters_subset [OF h] by simp
qed

text \<open>
  Claim C4. Filtering is idempotent: when \<open>apply_filters\<close> has produced a state, calling it
  again on that state, with the stored filters untouched, returns the same state, and so the
  same filtered frame.
\<close>

theorem apply_filters_idempotent:
  assumes "apply_filters st = Inr st'"
  shows "apply_filters st' = Inr st'"
proof -
  have r: "readable_date_range (date_range (filters st))"
    and eq: "st' = st\<lparr>filtered_df := filter (satisfies (filters st)) (df st)\<rparr>"
    using apply_filters_Inr [OF assms] by simp_all
  have "readable_date_range (date_range (filters st'))"
    using r eq by simp
  then have "apply_filters st' =
      Inr (st'\<lparr>filtered_df := filter (satisfies (filters st')) (df st')\<rparr>)"
    by (rule apply_filters_readable)
  also have "st'\<lparr>filtered_df := filter (satisfies (filters st')) (df st')\<rparr> = st'"
    using eq by simp
  finally show ?thesis .
qed

theorem apply_filters_idempotent_witness:
  "apply_filters sample_data = Inr (sample_data\<lparr>filtered_df := [order_a, order_b]\<rparr>)
   \<and> apply_filters (sample_data\<lparr>filtered_df := [order_a, order_b]\<rparr>)
       = Inr (sample_data\<lparr>filtered_df := [order_a, order_b]\<rparr>)"
proof -
  have h: "apply_filters sample_data = Inr (sample_data\<lparr>filtered_df := [order_a, order_b]\<rparr>)"
    by (rule sample_apply_filters)
  show ?thesis
    using h apply_filters_idempotent [OF h] by simp
qed

text \<open>
  Claim C5. For each of the five categorical filter keys, binding the key to the empty
  selection and binding it to \<open>None\<close> give the same outcome of \<open>apply_filters\<close>, whatever
  the full frame and the other filter entries are: the same filtered frame, or the same
  exception.
\<close>

theorem empty_selection_is_none:
  "map_sum id filtered_df
     (apply_filters
        (st\<lparr>filters := (filters st)\<lparr>categorical := (categorical (filters st))(col := Some [])\<rparr>\<rparr>))
   = map_sum id filtered_df
     (apply_filters
        (st\<lparr>filters := (filters st)\<lparr>categorical := (categorical (filters st))(col := None)\<rparr>\<rparr>))"
proof -
  have "\<And>rows.
      filter_columns ((filters st)\<lparr>categorical := (categorical (filters st))(col := Some [])\<rparr>)
        categorical_columns rows
      = filter_columns ((filters st)\<lparr>categorical := (categorical (filters st))(col := None)\<rparr>)
        categorical_columns rows"
    by (rule filter_columns_cong) (rule filter_column_empty_none)
  then show ?thesis
    by (simp add: apply_filters_def split: sum.splits)
qed

theorem empty_selection_is_none_witness:
  "map_sum id filtered_df
     (apply_filters
        (sample_data\<lparr>filters := (filters sample_data)\<lparr>categorical :=
           (categorical (filters sample_data))(CustomerRegion := Some [])\<rparr>\<rparr>))
   = Inr [order_a, order_b]
   \<and> map_sum id filtered_df
     (apply_filters
        (sample_data\<lparr>filters := (filters sample_data)\<lparr>categorical :=
           (categorical (filters sample_data))(CustomerRegion := None)\<rparr>\<rparr>))
   = Inr [order_a, order_b]"
proof -
  have "map_sum id filtered_df
     (apply_filters
        (sample_data\<lparr>filters := (filters sample_data)\<lparr>categorical :=
           (categorical (filters sample_data))(CustomerRegion := None)\<rparr>\<rparr>))
   = Inr [order_a, order_b]"
    by (simp add: apply_filters_def sample_data_def sample_filters_def sample_frame_def
        categorical_columns_def filter_column_def order_a_def order_b_def order_c_def)
  then show ?thesis
    using empty_selection_is_none [of sample_data CustomerRegion] by simp
qed

text \<open>
  Claim C7. After \<open>set_filters\<close>, every filter entry named in the call holds the given
  value and every other entry holds its prior value; the full frame is unchanged; the call
  ends without exception exactly when the merged date entry can be read, and then the
  filtered frame has been recomputed from the full frame under the merged filters (on an
  exception it is the old one). \<open>apply_filters\<close> changes nothing but the filtered frame.
\<close>

theorem set_filters_frame:
  assumes "set_filters kw st = (st', err)"
  shows "df st' = df st
    \<and> date_range (filters st') =
        (case kw_date_range kw of None \<Rightarrow> date_range (filters st) | Some v \<Rightarrow> v)
    \<and> (\<forall>col. categorical (filters st') col =
        (case kw_categorical kw col of None \<Rightarrow> categorical (filters st) col | Some v \<Rightarrow> v))
    \<and> (err = None) = readable_date_range (date_range (filters st'))
    \<and> filtered_df st' =
        (if err = None then filter (satisfies (filters st')) (df st) else filtered_df st)
    \<and> (\<forall>st''. apply_filters st = Inr st'' \<longrightarrow> st'' = st\<lparr>filtered_df := filtered_df st''\<rparr>)"
proof (cases "readable_date_range (date_range (update_filters (filters st) kw))")
  case True
  then have "apply_filters (st\<lparr>filters := update_filters (filters st) kw\<rparr>) =
      Inr (st\<lparr>filters := update_filters (filters st) kw,
          filtered_df := filter (satisfies (update_filters (filters st) kw)) (df st)\<rparr>)"
    using apply_filters_readable [of "st\<lparr>filters := update_filters (filters st) kw\<rparr>"] by simp
  with assms have "st' = st\<lparr>filters := update_filters (filters st) kw,
          filtered_df := filter (satisfies (update_filters (filters st) kw)) (df st)\<rparr>"
    and "err = None"
    by (simp_all add: set_filters_def Let_def)
  with True show ?thesis
    by (auto simp: update_filters_def apply_filters_def split: sum.splits)
next
  case False
  then have "apply_filters (st\<lparr>filters := update_filters (filters st) kw\<rparr>) = Inl IndexError"
    using apply_filters_unreadable [of "st\<lparr>filters := update_filters (filters st) kw\<rparr>"] by simp
  with assms have "st' = st\<lparr>filters := update_filters (filters st) kw\<rparr>"
    and "err = Some IndexError"
    by (simp_all add: set_filters_def Let_def)
  with False show ?thesis
    by (auto simp: update_filters_def apply_filters_def split: sum.splits)
qed

theorem set_filters_frame_witness:
  "df (fst (set_filters sample_kwargs sample_data)) = [order_a, order_b, order_c]
   \<and> snd (set_filters sample_kwargs sample_data) = None
   \<and> date_range (filters (fst (set_filters sample_kwargs sample_data))) = Some [18990, 19050]
   \<and> categorical (filters (fst (set_filters sample_kwargs sample_data))) CustomerRegion
       = Some [''West'', ''East'']
   \<and> categorical (filters (fst (set_filters sample_kwargs sample_data))) DeliveryStatus
       = Some [''Late delivery'']
   \<and> filtered_df (fst (set_filters sample_kwargs sample_data)) = [order_a]"
proof -
  have h: "set_filters sample_kwargs sample_data
      = (fst (set_filters sample_kwargs sample_data), snd (set_filters sample_kwargs sample_data))"
    by simp
  have r: "readable_date_range
      (case kw_date_range sample_kwargs of None \<Rightarrow> date_range (filters sample_data) | Some v \<Rightarrow> v)"
    by (simp add: sample_kwargs_def sample_data_def sample_filters_def)
  have c: "\<And>col. (case kw_categorical sample_kwargs col of
               None \<Rightarrow> categorical (filters sample_data) col | Some v \<Rightarrow> v)
             = ((\<lambda>c. None)(CustomerRegion := Some [''West'', ''East''], CustomerSegment := Some [],
                  DeliveryStatus := Some [''Late delivery''])) col"
    by (simp add: sample_kwargs_def sample_data_def sample_filters_def)
  show ?thesis
    using set_filters_frame [OF h] r
    apply (simp add: c)
    apply (simp add: sample_kwargs_def sample_data_def sample_filters_def sample_frame_def
        satisfies_def order_a_def order_b_def order_c_def)
    done
qed

section \<open>Claims about the key figures\<close>

text \<open>
  Claim C2, as the code has it. \<open>compute_kpis\<close> returns seven figures of the filtered
  frame: the sum of \<open>sales_per_order\<close>, the sum of \<open>profit_per_order\<close>, the number of
  records, the margin \<open>profit / revenue * 100\<close> when the revenue is strictly positive and
  0 otherwise, the average order value \<open>revenue / count\<close> and the on-time rate
  \<open>on_time / count * 100\<close>, both 0 when the count is 0, and the number of late
  deliveries; sums, quotients and products are those of pandas and numpy. On a frame of no
  rows the two ratios guarded by the count are the literal 0 and no division is evaluated;
  with the sum of an empty column being 0, as it is in pandas, all seven figures are 0.
\<close>

theorem compute_kpis_guarded:
  "(let rows = filtered_df st;
        revenue = np_sum ops (map sales_per_order rows);
        profit = np_sum ops (map profit_per_order rows);
        orders = length rows;
        on_time = count_status ''Shipping on time'' rows
    in compute_kpis ops st =
         \<lparr>total_revenue = revenue, total_profit = profit, total_orders = orders,
          profit_margin =
            (if greater_than_zero revenue
             then np_multiply ops (np_divide ops profit revenue) (Finite 100)
             else Finite 0),
          avg_order_value =
            (if orders = 0 then Finite 0 else np_divide ops revenue (Finite (of_nat orders))),
          on_time_rate =
            (if orders = 0 then Finite 0
             else np_multiply ops
                    (np_divide ops (Finite (of_nat on_time)) (Finite (of_nat orders)))
                    (Finite 100)),
          late_deliveries = count_status ''Late delivery'' rows\<rparr>)
   \<and> (filtered_df st = [] \<longrightarrow>
        avg_order_value (compute_kpis ops st) = Finite 0
        \<and> on_time_rate (compute_kpis ops st) = Finite 0
        \<and> total_orders (compute_kpis ops st) = 0
        \<and> late_deliveries (compute_kpis ops st) = 0)
   \<and> (filtered_df st = [] \<and> np_sum ops [] = Finite 0 \<longrightarrow>
        compute_kpis ops st =
          \<lparr>total_revenue = Finite 0, total_profit = Finite 0, total_orders = 0,
           profit_margin = Finite 0, avg_order_value = Finite 0, on_time_rate = Finite 0,
           late_deliveries = 0\<rparr>)"
proof (intro conjI impI)
  show "let rows = filtered_df st;
        revenue = np_sum ops (map sales_per_order rows);
        profit = np_sum ops (map profit_per_order rows);
        orders = length rows;
        on_time = count_status ''Shipping on time'' rows
    in compute_kpis ops st =
         \<lparr>total_revenue = revenue, total_profit = profit, total_orders = orders,
          profit_margin =
            (if greater_than_zero revenue
             then np_multiply ops (np_divide ops profit revenue) (Finite 100)
             else Finite 0),
          avg_order_value =
            (if orders = 0 then Finite 0 else np_divide ops revenue (Finite (of_nat orders))),
          on_time_rate =
            (if orders = 0 then Finite 0
             else np_multiply ops
                    (np_divide ops (Finite (of_nat on_time)) (Finite (of_nat orders)))
                    (Finite 100)),
          late_deliveries = count_status ''Late delivery'' rows\<rparr>"
    by (simp add: compute_kpis_def kpis_of_frame_def py_int_def Let_def)
next
  assume empty: "filtered_df st = []"
  have counts: "count_status ''Shipping on time'' [] = 0" "count_status ''Late delivery'' [] = 0"
    by (simp_all add: count_status_def)
  show "avg_order_value (compute_kpis ops st) = Finite 0"
    and "on_time_rate (compute_kpis ops st) = Finite 0"
    and "total_orders (compute_kpis ops st) = 0"
    and "late_deliveries (compute_kpis ops st) = 0"
    using counts by (simp_all add: compute_kpis_def kpis_of_frame_def py_int_def Let_def empty)
next
  assume "filtered_df st = [] \<and> np_sum ops [] = Finite 0"
  then have empty: "filtered_df st = []" and zero: "np_sum ops [] = Finite 0"
    by simp_all
  have counts: "count_status ''Late delivery'' [] = 0"
    by (simp add: count_status_def)
  show "compute_kpis ops st =
          \<lparr>total_revenue = Finite 0, total_profit = Finite 0, total_orders = 0,
           profit_margin = Finite 0, avg_order_value = Finite 0, on_time_rate = Finite 0,
           late_deliveries = 0\<rparr>"
    using counts by (simp add: compute_kpis_def kpis_of_frame_def py_int_def Let_def empty zero)
qed

theorem compute_kpis_guarded_witness:
  "compute_kpis exact_arithmetic (sample_data\<lparr>filtered_df := [order_a, order_d]\<rparr>) =
     \<lparr>total_revenue = Finite 128, total_profit = Finite 16, total_orders = 2,
      profit_margin = Finite (25 / 2), avg_order_value = Finite 64, on_time_rate = Finite 50,
      late_deliveries = 1\<rparr>
   \<and> filtered_df (data_init []) = []
   \<and> np_sum exact_arithmetic [] = Finite 0
   \<and> compute_kpis exact_arithmetic (data_init []) =
     \<lparr>total_revenue = Finite 0, total_profit = Finite 0, total_orders = 0,
      profit_margin = Finite 0, avg_order_value = Finite 0, on_time_rate = Finite 0,
      late_deliveries = 0\<rparr>"
proof -
  have e: "filtered_df (data_init []) = []"
    by (simp add: data_init_def)
  have z: "np_sum exact_arithmetic [] = Finite 0"
    by (simp add: exact_arithmetic_def)
  have v: "compute_kpis exact_arithmetic (sample_data\<lparr>filtered_df := [order_a, order_d]\<rparr>) =
     \<lparr>total_revenue = Finite 128, total_profit = Finite 16, total_orders = 2,
      profit_margin = Finite (25 / 2), avg_order_value = Finite 64, on_time_rate = Finite 50,
      late_deliveries = 1\<rparr>"
    using compute_kpis_guarded [of "sample_data\<lparr>filtered_df := [order_a, order_d]\<rparr>"
        exact_arithmetic]
    by (simp add: Let_def count_status_def order_a_def order_d_def exact_arithmetic_def)
  show ?thesis
    using e z v compute_kpis_guarded [of "data_init []" exact_arithmetic] by simp
qed

text \<open>
  Claim C2 as stated fails on a filtered frame of negative revenue: for the single order
  with sales -100 and profit 10 the stated margin \<open>100 * profit / revenue\<close> is -10, and
  \<open>compute_kpis\<close> returns the margin 0.
\<close>

theorem compute_kpis_negative_revenue_counterexample:
  "compute_kpis exact_arithmetic (sample_data\<lparr>filtered_df := [order_refund]\<rparr>)
     \<noteq> kpi_formulas exact_arithmetic [order_refund]
   \<and> total_revenue (compute_kpis exact_arithmetic (sample_data\<lparr>filtered_df := [order_refund]\<rparr>))
       = Finite (- 100)
   \<and> profit_margin (compute_kpis exact_arithmetic (sample_data\<lparr>filtered_df := [order_refund]\<rparr>))
       = Finite 0
   \<and> profit_margin (kpi_formulas exact_arithmetic [order_refund]) = Finite (- 10)"
  by (simp add: compute_kpis_def kpis_of_frame_def kpi_formulas_def py_int_def Let_def
      exact_arithmetic_def order_refund_def)

text \<open>
  Claim C6, as the code has it. After construction every filter entry is \<open>None\<close>, and
  \<open>compute_kpis\<close> returns the key figures of the full frame, the margin being
  \<open>profit / revenue * 100\<close> when the revenue is strictly positive and 0 otherwise. The
  same holds after \<open>apply_filters\<close> on any state whose filter entries are all
  \<open>None\<close>: the filtered frame is then the full frame.
\<close>

theorem compute_kpis_unfiltered:
  "(let formulas = (\<lambda>rows.
          \<lparr>total_revenue = np_sum ops (map sales_per_order rows),
           total_profit = np_sum ops (map profit_per_order rows),
           total_orders = length rows,
           profit_margin =
             (if greater_than_zero (np_sum ops (map sales_per_order rows))
              then np_multiply ops
                     (np_divide ops (np_sum ops (map profit_per_order rows))
                        (np_sum ops (map sales_per_order rows)))
                     (Finite 100)
              else Finite 0),
           avg_order_value =
             (if length rows = 0 then Finite 0
              else np_divide ops (np_sum ops (map sales_per_order rows))
                     (Finite (of_nat (length rows)))),
           on_time_rate =
             (if length rows = 0 then Finite 0
              else np_multiply ops
                     (np_divide ops (Finite (of_nat (count_status ''Shipping on time'' rows)))
                        (Finite (of_nat (length rows))))
                     (Finite 100)),
           late_deliveries = count_status ''Late delivery'' rows\<rparr>)
    in filters (data_init loaded) = no_filters
       \<and> df (data_init loaded) = loaded
       \<and> compute_kpis ops (data_init loaded) = formulas loaded
       \<and> (filters st = no_filters \<longrightarrow>
            (\<exists>st'. apply_filters st = Inr st' \<and> filtered_df st' = df st
                   \<and> compute_kpis ops st' = formulas (df st))))"
proof -
  let ?formulas = "\<lambda>rows.
          \<lparr>total_revenue = np_sum ops (map sales_per_order rows),
           total_profit = np_sum ops (map profit_per_order rows),
           total_orders = length rows,
           profit_margin =
             (if greater_than_zero (np_sum ops (map sales_per_order rows))
              then np_multiply ops
                     (np_divide ops (np_sum ops (map profit_per_order rows))
                        (np_sum ops (map sales_per_order rows)))
                     (Finite 100)
              else Finite 0),
           avg_order_value =
             (if length rows = 0 then Finite 0
              else np_divide ops (np_sum ops (map sales_per_order rows))
                     (Finite (of_nat (length rows)))),
           on_time_rate =
             (if length rows = 0 then Finite 0
              else np_multiply ops
                     (np_divide ops (Finite (of_nat (count_status ''Shipping on time'' rows)))
                        (Finite (of_nat (length rows))))
                     (Finite 100)),
           late_deliveries = count_status ''Late delivery'' rows\<rparr>"
  have body: "kpis_of_frame ops rows = ?formulas rows" for rows
    by (simp add: kpis_of_frame_def py_int_def Let_def)
  have init_filters: "filters (data_init loaded) = no_filters"
    and init_df: "df (data_init loaded) = loaded"
    by (simp_all add: data_init_def)
  have "compute_kpis ops (data_init loaded) = kpis_of_frame ops loaded"
    by (simp add: compute_kpis_def data_init_def)
  then have init_kpis: "compute_kpis ops (data_init loaded) = ?formulas loaded"
    by (simp only: body)
  have unfiltered: "\<exists>st'. apply_filters st = Inr st' \<and> filtered_df st' = df st
      \<and> compute_kpis ops st' = ?formulas (df st)"
    if "filters st = no_filters"
  proof -
    from that have "apply_filters st = Inr (st\<lparr>filtered_df := df st\<rparr>)"
      by (rule apply_filters_no_filters)
    moreover have "filtered_df (st\<lparr>filtered_df := df st\<rparr>) = df st"
      by simp
    moreover have "compute_kpis ops (st\<lparr>filtered_df := df st\<rparr>) = kpis_of_frame ops (df st)"
      by (simp add: compute_kpis_def)
    then have "compute_kpis ops (st\<lparr>filtered_df := df st\<rparr>) = ?formulas (df st)"
      by (simp only: body)
    ultimately show ?thesis by blast
  qed
  show ?thesis
    unfolding Let_def
    using init_filters init_df init_kpis unfiltered by blast
qed

theorem compute_kpis_unfiltered_witness:
  "filters (data_init ledger_frame) = no_filters
   \<and> apply_filters (data_init ledger_frame) = Inr (data_init ledger_frame)
   \<and> compute_kpis exact_arithmetic (data_init ledger_frame) =
       \<lparr>total_revenue = Finite 256, total_profit = Finite 32, total_orders = 4,
        profit_margin = Finite (25 / 2), avg_order_value = Finite 64,
        on_time_rate = Finite 50, late_deliveries = 1\<rparr>"
proof -
  have f: "filters (data_init ledger_frame) = no_filters"
    by (simp add: data_init_def)
  have a: "apply_filters (data_init ledger_frame) = Inr (data_init ledger_frame)"
    using apply_filters_no_filters [OF f] by (simp add: data_init_def)
  have "compute_kpis exact_arithmetic (data_init ledger_frame) =
       \<lparr>total_revenue = Finite 256, total_profit = Finite 32, total_orders = 4,
        profit_margin = Finite (25 / 2), avg_order_value = Finite 64,
        on_time_rate = Finite 50, late_deliveries = 1\<rparr>"
    using compute_kpis_unfiltered
      [where ops = exact_arithmetic and loaded = ledger_frame and st = "data_init ledger_frame"]
    by (simp add: Let_def count_status_def ledger_frame_def order_a_def order_c_def order_d_def
        order_e_def exact_arithmetic_def)
  with f a show ?thesis by simp
qed

text \<open>
  Claim C6 as stated fails for the key figures as the specification words them: with every
  filter entry \<open>None\<close> and a full frame of the single order with sales -100 and profit
  10, the stated margin is -10 and \<open>compute_kpis\<close> returns the margin 0.
\<close>

theorem compute_kpis_unfiltered_counterexample:
  "filters (data_init [order_refund]) = no_filters
   \<and> apply_filters (data_init [order_refund]) = Inr (data_init [order_refund])
   \<and> compute_kpis exact_arithmetic (data_init [order_refund])
       \<noteq> kpi_formulas exact_arithmetic (df (data_init [order_refund]))
   \<and> profit_margin (compute_kpis exact_arithmetic (data_init [order_refund])) = Finite 0
   \<and> profit_margin (kpi_formulas exact_arithmetic (df (data_init [order_refund])))
       = Finite (- 10)"
proof -
  have f: "filters (data_init [order_refund]) = no_filters"
    by (simp add: data_init_def)
  have a: "apply_filters (data_init [order_refund]) = Inr (data_init [order_refund])"
    using apply_filters_no_filters [OF f] by (simp add: data_init_def)
  have c: "profit_margin (compute_kpis exact_arithmetic (data_init [order_refund])) = Finite 0"
    by (simp add: compute_kpis_def kpis_of_frame_def py_int_def Let_def data_init_def
        order_refund_def exact_arithmetic_def)
  have s: "profit_margin (kpi_formulas exact_arithmetic (df (data_init [order_refund])))
       = Finite (- 10)"
    by (simp add: kpi_formulas_def Let_def data_init_def order_refund_def exact_arithmetic_def)
  from c s have "compute_kpis exact_arithmetic (data_init [order_refund])
       \<noteq> kpi_formulas exact_arithmetic (df (data_init [order_refund]))"
    by auto
  with f a c s show ?thesis by simp
qed

text \<open>
  Claim C8. The total revenue that \<open>compute_kpis\<close> returns is the sum of
  \<open>sales_per_order\<close> over the filtered frame as pandas computes it, and the guard of the
  margin is \<open>total_revenue > 0\<close>: the margin is \<open>profit / revenue * 100\<close> when that
  total is strictly positive and the literal 0 otherwise. In particular the margin is 0
  whenever the total revenue is strictly negative.
\<close>

theorem profit_margin_needs_positive_revenue:
  "total_revenue (compute_kpis ops st) = np_sum ops (map sales_per_order (filtered_df st))
   \<and> total_profit (compute_kpis ops st) = np_sum ops (map profit_per_order (filtered_df st))
   \<and> profit_margin (compute_kpis ops st) =
       (if greater_than_zero (total_revenue (compute_kpis ops st))
        then np_multiply ops
               (np_divide ops (total_profit (compute_kpis ops st))
                  (total_revenue (compute_kpis ops st)))
               (Finite 100)
        else Finite 0)
   \<and> (less_than_zero (total_revenue (compute_kpis ops st)) \<longrightarrow>
        profit_margin (compute_kpis ops st) = Finite 0)"
proof -
  let ?k = "compute_kpis ops st"
  have revenue: "total_revenue ?k = np_sum ops (map sales_per_order (filtered_df st))"
    and profit: "total_profit ?k = np_sum ops (map profit_per_order (filtered_df st))"
    by (simp_all add: compute_kpis_def kpis_of_frame_def Let_def)
  have margin: "profit_margin ?k =
       (if greater_than_zero (total_revenue ?k)
        then np_multiply ops (np_divide ops (total_profit ?k) (total_revenue ?k)) (Finite 100)
        else Finite 0)"
    by (simp add: compute_kpis_def kpis_of_frame_def py_int_def Let_def)
  have "profit_margin ?k = Finite 0" if neg: "less_than_zero (total_revenue ?k)"
  proof -
    have "\<not> greater_than_zero (total_revenue ?k)"
      using neg by (cases "total_revenue ?k") simp_all
    with margin show ?thesis by simp
  qed
  with revenue profit margin show ?thesis by blast
qed

theorem profit_margin_needs_positive_revenue_witness:
  "total_revenue (compute_kpis exact_arithmetic (data_init [order_refund])) = Finite (- 100)
   \<and> less_than_zero (total_revenue (compute_kpis exact_arithmetic (data_init [order_refund])))
   \<and> profit_margin (compute_kpis exact_arithmetic (data_init [order_refund])) = Finite 0"
proof -
  have r: "total_revenue (compute_kpis exact_arithmetic (data_init [order_refund]))
      = Finite (- 100)"
    by (simp add: compute_kpis_def kpis_of_frame_def Let_def data_init_def order_refund_def
        exact_arithmetic_def)
  then have h: "less_than_zero
      (total_revenue (compute_kpis exact_arithmetic (data_init [order_refund])))"
    by simp
  show ?thesis
    using r h profit_margin_needs_positive_revenue [of exact_arithmetic "data_init [order_refund]"]
    by blast
qed

end
